theory Spec2Isabelle
  imports Main "HOL-Library.Sublist"
begin

section \<open>Data model (main.py, Priority, Status, Task)\<close>

text \<open>
  The two string enums of main.py. \<open>Priority_value\<close> and \<open>Status_value\<close> are the
  \<^verbatim>\<open>.value\<close> of a member, the token written to the JSON file.
\<close>

datatype Priority = LOW | MEDIUM | HIGH

datatype Status = PENDING | IN_PROGRESS | COMPLETED

fun Priority_value :: "Priority \<Rightarrow> string" where
  "Priority_value LOW = ''low''"
| "Priority_value MEDIUM = ''medium''"
| "Priority_value HIGH = ''high''"

fun Status_value :: "Status \<Rightarrow> string" where
  "Status_value PENDING = ''pending''"
| "Status_value IN_PROGRESS = ''in_progress''"
| "Status_value COMPLETED = ''completed''"

text \<open>
  The attributes of a \<^verbatim>\<open>Task\<close> object, with the types of the annotations of
  \<^verbatim>\<open>Task.__init__\<close>: \<^verbatim>\<open>task_id: Optional[int]\<close>, \<^verbatim>\<open>completed_at: Optional[str]\<close>;
  \<^verbatim>\<open>created_at\<close> is a string once the constructor has run.
\<close>

record Task =
  task_id :: "int option"
  title :: string
  description :: string
  priority :: Priority
  status :: Status
  created_at :: string
  completed_at :: "string option"

text \<open>
  \<^verbatim>\<open>Task.__init__\<close>. The clock \<^verbatim>\<open>datetime.now().isoformat()\<close> is the parameter
  \<open>now\<close>. \<^verbatim>\<open>created_at or now\<close> takes the clock when \<^verbatim>\<open>created_at\<close> is falsy:
  \<^verbatim>\<open>None\<close> or the empty string.
\<close>

definition Task_init ::
  "string \<Rightarrow> string \<Rightarrow> string \<Rightarrow> Priority \<Rightarrow> Status \<Rightarrow> string option \<Rightarrow> string option
     \<Rightarrow> int option \<Rightarrow> Task" where
  "Task_init now ttl descr prio st created completed tid =
     \<lparr> task_id = tid, title = ttl, description = descr, priority = prio, status = st,
       created_at = (case created of None \<Rightarrow> now | Some c \<Rightarrow> if c = [] then now else c),
       completed_at = completed \<rparr>"

text \<open>\<^verbatim>\<open>Task.mark_completed\<close> and \<^verbatim>\<open>Task.mark_in_progress\<close>.\<close>

definition mark_completed :: "string \<Rightarrow> Task \<Rightarrow> Task" where
  "mark_completed now t = t\<lparr>status := COMPLETED, completed_at := Some now\<rparr>"

definition mark_in_progress :: "Task \<Rightarrow> Task" where
  "mark_in_progress t = t\<lparr>status := IN_PROGRESS, completed_at := None\<rparr>"


section \<open>JSON values and exceptions\<close>

text \<open>
  The Python value that \<^verbatim>\<open>json.load\<close> returns and \<^verbatim>\<open>json.dump\<close> takes. An object
  is the list of its members in the order of the text. Numbers that are not integers are
  left out.
\<close>

datatype json =
    JNull
  | JBool bool
  | JInt int
  | JStr string
  | JArr "json list"
  | JObj "(string \<times> json) list"

text \<open>
  The exception classes the modelled code can meet; \<^verbatim>\<open>MarkupError\<close> is the one
  \<^verbatim>\<open>console.print\<close> raises on markup it cannot parse. \<open>is_Exception\<close> is
  membership in Python's class \<^verbatim>\<open>Exception\<close>; \<^verbatim>\<open>KeyboardInterrupt\<close> derives from
  \<^verbatim>\<open>BaseException\<close> only. \<open>is_decode_error\<close> is membership in the tuple
  \<^verbatim>\<open>(json.JSONDecodeError, KeyError, ValueError)\<close> of the first handler of
  \<^verbatim>\<open>load_tasks\<close>; \<^verbatim>\<open>JSONDecodeError\<close> is itself a subclass of \<^verbatim>\<open>ValueError\<close>.

  Where the text of an exception is used (the handlers of \<^verbatim>\<open>load_tasks\<close> print it),
  the exception is the pair of its class and \<^verbatim>\<open>str(e)\<close>.
\<close>

datatype exn =
    JSONDecodeError
  | KeyError
  | ValueError
  | TypeError
  | AttributeError
  | OSError
  | MarkupError
  | KeyboardInterrupt

type_synonym raised = "exn \<times> string"

fun is_Exception :: "exn \<Rightarrow> bool" where
  "is_Exception KeyboardInterrupt = False"
| "is_Exception _ = True"

fun is_decode_error :: "exn \<Rightarrow> bool" where
  "is_decode_error JSONDecodeError = True"
| "is_decode_error KeyError = True"
| "is_decode_error ValueError = True"
| "is_decode_error _ = False"

text \<open>
  The name of the Python type of a decoded value, and a text between single quotes, as
  they stand in the messages of \<^verbatim>\<open>TypeError\<close>, \<^verbatim>\<open>AttributeError\<close> and
  \<^verbatim>\<open>KeyError\<close>.
\<close>

fun py_type_name :: "json \<Rightarrow> string" where
  "py_type_name JNull = ''NoneType''"
| "py_type_name (JBool b) = ''bool''"
| "py_type_name (JInt i) = ''int''"
| "py_type_name (JStr s) = ''str''"
| "py_type_name (JArr xs) = ''list''"
| "py_type_name (JObj kv) = ''dict''"

definition quoted :: "string \<Rightarrow> string" where
  "quoted s = CHR 0x27 # s @ [CHR 0x27]"

text \<open>Python truthiness of a decoded JSON value.\<close>

fun truthy :: "json \<Rightarrow> bool" where
  "truthy JNull = False"
| "truthy (JBool b) = b"
| "truthy (JInt i) = (i \<noteq> 0)"
| "truthy (JStr s) = (s \<noteq> [])"
| "truthy (JArr xs) = (xs \<noteq> [])"
| "truthy (JObj kv) = (kv \<noteq> [])"

text \<open>
  \<^verbatim>\<open>data.get(key)\<close> and \<^verbatim>\<open>data.get(key, default)\<close> on the dict decoded from an
  object: when the text repeats a key, \<^verbatim>\<open>json.load\<close> keeps the last value.
\<close>

definition dict_lookup :: "(string \<times> json) list \<Rightarrow> string \<Rightarrow> json option" where
  "dict_lookup kv k = map_of (rev kv) k"

definition dict_get :: "(string \<times> json) list \<Rightarrow> string \<Rightarrow> json \<Rightarrow> json" where
  "dict_get kv k dflt = (case dict_lookup kv k of None \<Rightarrow> dflt | Some v \<Rightarrow> v)"

text \<open>
  \<^verbatim>\<open>Priority(x)\<close> and \<^verbatim>\<open>Status(x)\<close>: the member whose value is \<open>x\<close>;
  \<open>None\<close> stands for the \<^verbatim>\<open>ValueError\<close> Python raises for any other \<open>x\<close>.
\<close>

definition Priority_of :: "json \<Rightarrow> Priority option" where
  "Priority_of v =
     (if v = JStr ''low'' then Some LOW
      else if v = JStr ''medium'' then Some MEDIUM
      else if v = JStr ''high'' then Some HIGH
      else None)"

definition Status_of :: "json \<Rightarrow> Status option" where
  "Status_of v =
     (if v = JStr ''pending'' then Some PENDING
      else if v = JStr ''in_progress'' then Some IN_PROGRESS
      else if v = JStr ''completed'' then Some COMPLETED
      else None)"


section \<open>Serialisation (Task.to_dict, Task.from_dict)\<close>

definition json_of_int_option :: "int option \<Rightarrow> json" where
  "json_of_int_option x = (case x of None \<Rightarrow> JNull | Some i \<Rightarrow> JInt i)"

definition json_of_str_option :: "string option \<Rightarrow> json" where
  "json_of_str_option x = (case x of None \<Rightarrow> JNull | Some s \<Rightarrow> JStr s)"

text \<open>\<^verbatim>\<open>Task.to_dict\<close>: the seven members, in the order of the dict literal.\<close>

definition to_dict :: "Task \<Rightarrow> json" where
  "to_dict t = JObj
     [ (''task_id'', json_of_int_option (task_id t)),
       (''title'', JStr (title t)),
       (''description'', JStr (description t)),
       (''priority'', JStr (Priority_value (priority t))),
       (''status'', JStr (Status_value (status t))),
       (''created_at'', JStr (created_at t)),
       (''completed_at'', json_of_str_option (completed_at t)) ]"

text \<open>
  \<^verbatim>\<open>Task.from_dict\<close> passes \<^verbatim>\<open>task_id\<close>, \<^verbatim>\<open>title\<close>, \<^verbatim>\<open>description\<close>,
  \<^verbatim>\<open>created_at\<close> and \<^verbatim>\<open>completed_at\<close> through as they are decoded. Python keeps a
  value of any type in the attribute; the record keeps the annotated type only. The
  readers below return \<open>None\<close> for a value of another type, and \<open>from_dict\<close> then
  returns \<open>Inr None\<close>: Python returns a \<^verbatim>\<open>Task\<close> there, one that the record cannot
  hold. No exception is raised on that path.
\<close>

fun as_int_option :: "json \<Rightarrow> int option option" where
  "as_int_option JNull = Some None"
| "as_int_option (JInt i) = Some (Some i)"
| "as_int_option _ = None"

fun as_str :: "json \<Rightarrow> string option" where
  "as_str (JStr s) = Some s"
| "as_str _ = None"

fun as_str_option :: "json \<Rightarrow> string option option" where
  "as_str_option JNull = Some None"
| "as_str_option (JStr s) = Some (Some s)"
| "as_str_option _ = None"

text \<open>
  The \<^verbatim>\<open>created_at\<close> argument meets \<^verbatim>\<open>created_at or now\<close> in the constructor, so
  every falsy value, of whatever type, is replaced by the clock as \<^verbatim>\<open>None\<close> is.
\<close>

definition as_created_at :: "json \<Rightarrow> string option option" where
  "as_created_at v = (if \<not> truthy v then Some None else as_str_option v)"

text \<open>
  \<^verbatim>\<open>Task.from_dict\<close>. The arguments of the call are evaluated in the order written:
  \<^verbatim>\<open>data.get\<close> fails with \<^verbatim>\<open>AttributeError\<close> on anything but a dict,
  \<^verbatim>\<open>data["title"]\<close> with \<^verbatim>\<open>KeyError\<close>, then \<^verbatim>\<open>Priority(...)\<close> and
  \<^verbatim>\<open>Status(...)\<close> with \<^verbatim>\<open>ValueError\<close>. The text of that \<^verbatim>\<open>ValueError\<close> is
  \<^verbatim>\<open>"%r is not a valid %s"\<close> of the value and the name of the enum; Python's
  \<^verbatim>\<open>repr\<close> of a decoded value is the parameter \<open>py_repr\<close>.
\<close>

definition from_dict :: "(json \<Rightarrow> string) \<Rightarrow> string \<Rightarrow> json \<Rightarrow> raised + Task option" where
  "from_dict py_repr now data =
     (case data of
        JObj kv \<Rightarrow>
          (case dict_lookup kv ''title'' of
             None \<Rightarrow> Inl (KeyError, quoted ''title'')
           | Some ttl \<Rightarrow>
               (case Priority_of (dict_get kv ''priority'' (JStr (Priority_value MEDIUM))) of
                  None \<Rightarrow>
                    Inl (ValueError,
                         py_repr (dict_get kv ''priority'' (JStr (Priority_value MEDIUM)))
                           @ '' is not a valid Priority'')
                | Some prio \<Rightarrow>
                    (case Status_of (dict_get kv ''status'' (JStr (Status_value PENDING))) of
                       None \<Rightarrow>
                         Inl (ValueError,
                              py_repr (dict_get kv ''status'' (JStr (Status_value PENDING)))
                                @ '' is not a valid Status'')
                     | Some st \<Rightarrow>
                         Inr (case (as_int_option (dict_get kv ''task_id'' JNull),
                                    as_str ttl,
                                    as_str (dict_get kv ''description'' (JStr [])),
                                    as_created_at (dict_get kv ''created_at'' JNull),
                                    as_str_option (dict_get kv ''completed_at'' JNull)) of
                                (Some tid, Some ttl', Some descr, Some created, Some completed) \<Rightarrow>
                                  Some (Task_init now ttl' descr prio st created completed tid)
                              | _ \<Rightarrow> None))))
      | _ \<Rightarrow>
          Inl (AttributeError,
               quoted (py_type_name data) @ '' object has no attribute '' @ quoted ''get''))"


section \<open>Persistence (TodoStorage)\<close>

text \<open>
  What \<^verbatim>\<open>DATA_FILE\<close> holds: no file; a file that \<^verbatim>\<open>open\<close> cannot read, with the
  text of the \<^verbatim>\<open>OSError\<close>; a file whose text \<^verbatim>\<open>json.load\<close> rejects, with the
  text of the \<^verbatim>\<open>JSONDecodeError\<close>; or a file whose text decodes to a value.
  \<^verbatim>\<open>json.dump\<close> followed by \<^verbatim>\<open>json.load\<close> gives back the value dumped, so a
  written file is kept as the value written.

  \<open>writable\<close> says whether \<^verbatim>\<open>open(DATA_FILE, "w")\<close> succeeds, \<open>console\<close> is what
  \<^verbatim>\<open>console.print\<close> has printed, and \<open>save_calls\<close> counts the calls of
  \<^verbatim>\<open>TodoStorage.save_tasks\<close>.
\<close>

datatype file_state = NoFile | Unreadable string | Unparseable string | Parsed json

record storage =
  content :: file_state
  writable :: bool
  console :: "string list"
  save_calls :: nat

text \<open>
  \<^verbatim>\<open>console.print\<close> of a markup text. Whether the markup parser of the \<^verbatim>\<open>rich\<close>
  library accepts a text is the parameter \<open>renders\<close>; on a text it rejects,
  \<^verbatim>\<open>console.print\<close> raises \<^verbatim>\<open>MarkupError\<close> and prints nothing.
\<close>

definition console_print :: "(string \<Rightarrow> bool) \<Rightarrow> string \<Rightarrow> storage \<Rightarrow> exn + storage" where
  "console_print renders markup st =
     (if renders markup then Inr (st\<lparr>console := console st @ [markup]\<rparr>) else Inl MarkupError)"

text \<open>
  The keys of the dict decoded from an object, in the order a Python dict keeps them: a
  repeated key stays where it first stood.
\<close>

definition dict_keys :: "(string \<times> json) list \<Rightarrow> string list" where
  "dict_keys kv = rev (remdups (rev (map fst kv)))"

text \<open>
  \<^verbatim>\<open>for task_data in data\<close>: a list gives its elements, a dict its keys, a string
  its characters; \<^verbatim>\<open>None\<close>, a bool and an int are not iterable.
\<close>

fun iterate :: "json \<Rightarrow> raised + json list" where
  "iterate (JArr xs) = Inr xs"
| "iterate (JObj kv) = Inr (map JStr (dict_keys kv))"
| "iterate (JStr s) = Inr (map (\<lambda>c. JStr [c]) s)"
| "iterate v = Inl (TypeError, quoted (py_type_name v) @ '' object is not iterable'')"

text \<open>
  The list comprehension \<^verbatim>\<open>[Task.from_dict(task_data) for task_data in data]\<close>: the
  first exception ends it.
\<close>

fun from_dicts :: "(json \<Rightarrow> string) \<Rightarrow> string \<Rightarrow> json list \<Rightarrow> raised + Task list option" where
  "from_dicts py_repr now [] = Inr (Some [])"
| "from_dicts py_repr now (d # ds) =
     (case from_dict py_repr now d of
        Inl x \<Rightarrow> Inl x
      | Inr t \<Rightarrow>
          (case from_dicts py_repr now ds of
             Inl x \<Rightarrow> Inl x
           | Inr ts \<Rightarrow>
               Inr (case (t, ts) of (Some t', Some ts') \<Rightarrow> Some (t' # ts') | _ \<Rightarrow> None)))"

text \<open>The body of the \<^verbatim>\<open>try\<close> of \<^verbatim>\<open>TodoStorage.load_tasks\<close>.\<close>

definition load_body :: "(json \<Rightarrow> string) \<Rightarrow> string \<Rightarrow> file_state \<Rightarrow> raised + Task list option" where
  "load_body py_repr now f =
     (case f of
        NoFile \<Rightarrow> Inr (Some [])
      | Unreadable msg \<Rightarrow> Inl (OSError, msg)
      | Unparseable msg \<Rightarrow> Inl (JSONDecodeError, msg)
      | Parsed data \<Rightarrow>
          (case iterate data of Inl x \<Rightarrow> Inl x | Inr ds \<Rightarrow> from_dicts py_repr now ds))"

text \<open>
  \<^verbatim>\<open>TodoStorage.load_tasks\<close> with its two handlers. Each handler prints the text of
  the exception inside markup; an exception raised by that \<^verbatim>\<open>console.print\<close> is
  raised inside the handler, so no handler of this \<^verbatim>\<open>try\<close> takes it and it leaves
  the function (\<open>Inl\<close>), as does an exception that neither handler takes.
\<close>

definition load_tasks ::
  "(string \<Rightarrow> bool) \<Rightarrow> (json \<Rightarrow> string) \<Rightarrow> string \<Rightarrow> storage
     \<Rightarrow> exn + (Task list option \<times> storage)" where
  "load_tasks renders py_repr now st =
     (case load_body py_repr now (content st) of
        Inr ts \<Rightarrow> Inr (ts, st)
      | Inl (x, msg) \<Rightarrow>
          if is_decode_error x then
            (case console_print renders (''[red]Error loading tasks: '' @ msg @ ''[/red]'') st of
               Inl y \<Rightarrow> Inl y
             | Inr st1 \<Rightarrow>
                 (case console_print renders
                         ''[yellow]Starting with empty task list.[/yellow]'' st1 of
                    Inl y \<Rightarrow> Inl y
                  | Inr st2 \<Rightarrow> Inr (Some [], st2)))
          else if is_Exception x then
            (case console_print renders
                    (''[red]Unexpected error loading tasks: '' @ msg @ ''[/red]'') st of
               Inl y \<Rightarrow> Inl y
             | Inr st1 \<Rightarrow> Inr (Some [], st1))
          else Inl x)"

text \<open>
  \<^verbatim>\<open>TodoStorage.save_tasks\<close>: the whole list replaces the content of the file; when
  the file cannot be opened for writing the error is printed and \<^verbatim>\<open>False\<close> returned.
  The text printed there is that of the \<^verbatim>\<open>OSError\<close> for \<^verbatim>\<open>DATA_FILE\<close>, which holds
  nothing read from the file; it is taken to print.
\<close>

definition save_tasks :: "Task list \<Rightarrow> storage \<Rightarrow> bool \<times> storage" where
  "save_tasks ts st =
     (if writable st then
        (True, st\<lparr>content := Parsed (JArr (map to_dict ts)), save_calls := Suc (save_calls st)\<rparr>)
      else
        (False, st\<lparr>console := console st @ [''Error saving tasks''],
                     save_calls := Suc (save_calls st)\<rparr>))"


section \<open>Business logic (TodoManager)\<close>

record TodoManager =
  tasks :: "Task list"
  store :: storage

text \<open>\<^verbatim>\<open>TodoManager._assign_task_ids\<close>: the two loops.\<close>

fun highest_id :: "int \<Rightarrow> Task list \<Rightarrow> int" where
  "highest_id max_id [] = max_id"
| "highest_id max_id (t # ts) =
     (case task_id t of
        Some i \<Rightarrow> highest_id (max max_id i) ts
      | None \<Rightarrow> highest_id max_id ts)"

fun assign_missing :: "int \<Rightarrow> Task list \<Rightarrow> Task list" where
  "assign_missing max_id [] = []"
| "assign_missing max_id (t # ts) =
     (case task_id t of
        None \<Rightarrow> t\<lparr>task_id := Some (max_id + 1)\<rparr> # assign_missing (max_id + 1) ts
      | Some i \<Rightarrow> t # assign_missing max_id ts)"

definition assign_task_ids :: "Task list \<Rightarrow> Task list" where
  "assign_task_ids ts = assign_missing (highest_id 0 ts) ts"

text \<open>
  \<^verbatim>\<open>TodoManager.__init__\<close>. Where \<^verbatim>\<open>load_tasks\<close> returns tasks that the record cannot
  hold, the code goes on with them: \<^verbatim>\<open>_assign_task_ids\<close> raises \<^verbatim>\<open>TypeError\<close> when
  an ID among them cannot be compared with an integer, and otherwise the manager holds
  those tasks. The model has no value for either and gives \<open>None\<close> there: it says
  nothing about the constructor on such a file.
\<close>

definition TodoManager_init ::
  "(string \<Rightarrow> bool) \<Rightarrow> (json \<Rightarrow> string) \<Rightarrow> string \<Rightarrow> storage \<Rightarrow> (exn + TodoManager) option" where
  "TodoManager_init renders py_repr now st =
     (case load_tasks renders py_repr now st of
        Inl x \<Rightarrow> Some (Inl x)
      | Inr (None, st') \<Rightarrow> None
      | Inr (Some ts, st') \<Rightarrow> Some (Inr \<lparr>tasks = assign_task_ids ts, store = st'\<rparr>))"

text \<open>\<^verbatim>\<open>TodoManager._save_tasks\<close>: the result of the store is dropped.\<close>

definition manager_save_tasks :: "TodoManager \<Rightarrow> TodoManager" where
  "manager_save_tasks m = m\<lparr>store := snd (save_tasks (tasks m) (store m))\<rparr>"

text \<open>
  Python's \<^verbatim>\<open>max\<close> of a sequence of integers: \<^verbatim>\<open>ValueError\<close> on the empty one.
\<close>

fun py_max :: "int list \<Rightarrow> exn + int" where
  "py_max [] = Inl ValueError"
| "py_max (x # xs) = Inr (fold max xs x)"

text \<open>
  The generator \<^verbatim>\<open>task.task_id for task in self.tasks if task.task_id\<close>: the test is
  truthiness, so it drops \<^verbatim>\<open>None\<close> and \<^verbatim>\<open>0\<close>.
\<close>

fun truthy_ids :: "Task list \<Rightarrow> int list" where
  "truthy_ids [] = []"
| "truthy_ids (t # ts) =
     (case task_id t of
        None \<Rightarrow> truthy_ids ts
      | Some i \<Rightarrow> if i \<noteq> 0 then i # truthy_ids ts else truthy_ids ts)"

text \<open>\<^verbatim>\<open>TodoManager._get_next_id\<close>.\<close>

definition get_next_id :: "Task list \<Rightarrow> exn + int" where
  "get_next_id ts =
     (if ts = [] then Inr 1
      else (case py_max (truthy_ids ts) of Inl x \<Rightarrow> Inl x | Inr m \<Rightarrow> Inr (m + 1)))"

text \<open>
  \<^verbatim>\<open>TodoManager.add_task\<close>. The exception of \<^verbatim>\<open>_get_next_id\<close> is raised while the
  arguments of \<^verbatim>\<open>Task(...)\<close> are evaluated, before the list is touched.
\<close>

definition add_task ::
  "string \<Rightarrow> TodoManager \<Rightarrow> string \<Rightarrow> string \<Rightarrow> Priority \<Rightarrow> exn + (Task \<times> TodoManager)" where
  "add_task now m ttl descr prio =
     (case get_next_id (tasks m) of
        Inl x \<Rightarrow> Inl x
      | Inr n \<Rightarrow>
          (let task = Task_init now ttl descr prio PENDING None None (Some n)
           in Inr (task, manager_save_tasks (m\<lparr>tasks := tasks m @ [task]\<rparr>))))"

text \<open>\<^verbatim>\<open>TodoManager.get_tasks\<close>; the comprehension is the loop \<open>with_status\<close>.\<close>

fun with_status :: "Status \<Rightarrow> Task list \<Rightarrow> Task list" where
  "with_status s [] = []"
| "with_status s (t # ts) = (if status t = s then t # with_status s ts else with_status s ts)"

definition get_tasks :: "TodoManager \<Rightarrow> Status option \<Rightarrow> Task list \<times> TodoManager" where
  "get_tasks m status_filter =
     (case status_filter of
        None \<Rightarrow> (tasks m, m)
      | Some s \<Rightarrow> (with_status s (tasks m), m))"

text \<open>\<^verbatim>\<open>TodoManager.get_task_by_id\<close>: the first task with that ID.\<close>

fun get_task_by_id :: "Task list \<Rightarrow> int \<Rightarrow> Task option" where
  "get_task_by_id [] i = None"
| "get_task_by_id (t # ts) i = (if task_id t = Some i then Some t else get_task_by_id ts i)"

text \<open>
  The object that \<^verbatim>\<open>get_task_by_id\<close> returns is the one in the list, so assigning to
  its attributes changes the list at its place: \<open>modify_found i f ts\<close> applies \<open>f\<close> to
  the first task with ID \<open>i\<close>. \<^verbatim>\<open>self.tasks.remove(task)\<close> removes that same object:
  \<open>remove_found\<close>.
\<close>

fun modify_found :: "int \<Rightarrow> (Task \<Rightarrow> Task) \<Rightarrow> Task list \<Rightarrow> Task list" where
  "modify_found i f [] = []"
| "modify_found i f (t # ts) =
     (if task_id t = Some i then f t # ts else t # modify_found i f ts)"

fun remove_found :: "int \<Rightarrow> Task list \<Rightarrow> Task list" where
  "remove_found i [] = []"
| "remove_found i (t # ts) = (if task_id t = Some i then ts else t # remove_found i ts)"

text \<open>The assignments of \<^verbatim>\<open>TodoManager.update_task\<close> to the task found.\<close>

definition apply_update ::
  "string \<Rightarrow> string option \<Rightarrow> string option \<Rightarrow> Priority option \<Rightarrow> Status option \<Rightarrow> Task \<Rightarrow> Task" where
  "apply_update now ttl descr prio st t =
     (let t1 = (case ttl of None \<Rightarrow> t | Some x \<Rightarrow> t\<lparr>title := x\<rparr>);
          t2 = (case descr of None \<Rightarrow> t1 | Some x \<Rightarrow> t1\<lparr>description := x\<rparr>);
          t3 = (case prio of None \<Rightarrow> t2 | Some x \<Rightarrow> t2\<lparr>priority := x\<rparr>)
      in (case st of
            None \<Rightarrow> t3
          | Some s \<Rightarrow>
              (let t4 = t3\<lparr>status := s\<rparr>
               in if s = COMPLETED then mark_completed now t4
                  else if s = IN_PROGRESS then mark_in_progress t4
                  else t4)))"

text \<open>\<^verbatim>\<open>TodoManager.update_task\<close>.\<close>

definition update_task ::
  "string \<Rightarrow> TodoManager \<Rightarrow> int \<Rightarrow> string option \<Rightarrow> string option \<Rightarrow> Priority option
     \<Rightarrow> Status option \<Rightarrow> bool \<times> TodoManager" where
  "update_task now m i ttl descr prio st =
     (case get_task_by_id (tasks m) i of
        None \<Rightarrow> (False, m)
      | Some task \<Rightarrow>
          (True, manager_save_tasks
                   (m\<lparr>tasks := modify_found i (apply_update now ttl descr prio st) (tasks m)\<rparr>)))"

text \<open>\<^verbatim>\<open>TodoManager.delete_task\<close>.\<close>

definition delete_task :: "TodoManager \<Rightarrow> int \<Rightarrow> bool \<times> TodoManager" where
  "delete_task m i =
     (case get_task_by_id (tasks m) i of
        None \<Rightarrow> (False, m)
      | Some task \<Rightarrow> (True, manager_save_tasks (m\<lparr>tasks := remove_found i (tasks m)\<rparr>)))"

text \<open>\<^verbatim>\<open>TodoManager.mark_completed\<close>.\<close>

definition manager_mark_completed :: "string \<Rightarrow> TodoManager \<Rightarrow> int \<Rightarrow> bool \<times> TodoManager" where
  "manager_mark_completed now m i = update_task now m i None None None (Some COMPLETED)"


section \<open>Notions used to state the properties\<close>

text \<open>The IDs present in a collection, in order; a task without an ID contributes none.\<close>

fun all_ids :: "Task list \<Rightarrow> int list" where
  "all_ids [] = []"
| "all_ids (t # ts) = (case task_id t of None \<Rightarrow> all_ids ts | Some i \<Rightarrow> i # all_ids ts)"

text \<open>
  The collections of the data model: every task carries an ID, and the ID is positive.
  The ID the data model gives the next task: one more than the maximum present, 1 on the
  empty collection.
\<close>

definition positive_ids :: "Task list \<Rightarrow> bool" where
  "positive_ids ts = list_all (\<lambda>t. case task_id t of None \<Rightarrow> False | Some i \<Rightarrow> 0 < i) ts"

definition next_id :: "Task list \<Rightarrow> int" where
  "next_id ts = (if ts = [] then 1 else Max (set (all_ids ts)) + 1)"

text \<open>
  A sequence of \<^verbatim>\<open>add_task\<close> calls on one manager, each with its own clock reading,
  title, description and priority; the tasks returned, in call order.
\<close>

fun add_all ::
  "TodoManager \<Rightarrow> (string \<times> string \<times> string \<times> Priority) list \<Rightarrow> exn + (Task list \<times> TodoManager)" where
  "add_all m [] = Inr ([], m)"
| "add_all m ((now, ttl, descr, prio) # rs) =
     (case add_task now m ttl descr prio of
        Inl x \<Rightarrow> Inl x
      | Inr (t, m') \<Rightarrow>
          (case add_all m' rs of
             Inl x \<Rightarrow> Inl x
           | Inr (ts, m'') \<Rightarrow> Inr (t # ts, m'')))"

text \<open>
  An ISO-8601 timestamp text in the form \<^verbatim>\<open>datetime.isoformat()\<close> gives:
  \<^verbatim>\<open>YYYY-MM-DDTHH:MM:SS\<close>, followed by a point and six digits when the microseconds
  are not zero. In a shape, \<^verbatim>\<open>d\<close> stands for a digit and any other character for
  itself.
\<close>

definition is_digit :: "char \<Rightarrow> bool" where
  "is_digit c = (c \<in> set ''0123456789'')"

fun has_shape :: "string \<Rightarrow> string \<Rightarrow> bool" where
  "has_shape [] [] = True"
| "has_shape (p # ps) (c # cs) =
     ((if p = CHR ''d'' then is_digit c else c = p) \<and> has_shape ps cs)"
| "has_shape _ _ = False"

definition iso8601 :: "string \<Rightarrow> bool" where
  "iso8601 s =
     (has_shape ''dddd-dd-ddTdd:dd:dd'' s \<or> has_shape ''dddd-dd-ddTdd:dd:dd.dddddd'' s)"

text \<open>
  A task as the data model has it where the persisted layout is concerned: it carries an
  ID, and its timestamps are ISO-8601 texts.
\<close>

definition stamped :: "Task \<Rightarrow> bool" where
  "stamped t =
     (task_id t \<noteq> None \<and> iso8601 (created_at t) \<and>
      (case completed_at t of None \<Rightarrow> True | Some c \<Rightarrow> iso8601 c))"










section \<open>Example values\<close>

definition task_milk :: Task where
  "task_milk =
     \<lparr> task_id = Some 1, title = ''Buy milk'', description = [], priority = MEDIUM,
       status = PENDING, created_at = ''2025-06-01T10:00:00'', completed_at = None \<rparr>"

definition task_report :: Task where
  "task_report =
     \<lparr> task_id = Some 5, title = ''Write report'', description = ''Q2 numbers'', priority = HIGH,
       status = COMPLETED, created_at = ''2025-06-01T11:30:00'',
       completed_at = Some ''2025-06-02T08:15:00'' \<rparr>"

definition task_call :: Task where
  "task_call =
     \<lparr> task_id = Some 3, title = ''Call the bank'', description = [], priority = LOW,
       status = IN_PROGRESS, created_at = ''2025-06-01T12:00:00'', completed_at = None \<rparr>"

definition task_zero :: Task where
  "task_zero =
     \<lparr> task_id = Some 0, title = ''Legacy entry'', description = [], priority = MEDIUM,
       status = PENDING, created_at = ''2025-05-01T09:00:00'', completed_at = None \<rparr>"

definition fresh_store :: storage where
  "fresh_store = \<lparr> content = NoFile, writable = True, console = [], save_calls = 0 \<rparr>"

definition empty_manager :: TodoManager where
  "empty_manager = \<lparr> tasks = [], store = fresh_store \<rparr>"

definition three_manager :: TodoManager where
  "three_manager = \<lparr> tasks = [task_milk, task_report, task_call], store = fresh_store \<rparr>"

definition stored_three :: storage where
  "stored_three = fresh_store \<lparr> content := Parsed (JArr (map to_dict [task_milk, task_report, task_call])) \<rparr>"

text \<open>
  A file holding one record with the ID 0, as \<^verbatim>\<open>[{"task_id": 0, "title": "Legacy entry",
  "created_at": "2025-05-01T09:00:00"}]\<close>, and the manager built from it.
\<close>

definition stored_zero :: storage where
  "stored_zero =
     fresh_store \<lparr> content := Parsed (JArr [JObj [(''task_id'', JInt 0),
                                                  (''title'', JStr ''Legacy entry''),
                                                  (''created_at'', JStr ''2025-05-01T09:00:00'')]]) \<rparr>"

definition zero_manager :: TodoManager where
  "zero_manager = \<lparr> tasks = [task_zero], store = stored_zero \<rparr>"

definition untitled_task :: Task where
  "untitled_task =
     \<lparr> task_id = Some 1, title = [], description = [], priority = MEDIUM,
       status = PENDING, created_at = ''2025-06-03T09:00:00'', completed_at = None \<rparr>"

text \<open>
  A file holding one record whose priority is the text \<^verbatim>\<open>[/x]\<close>, as
  \<^verbatim>\<open>[{"title": "x", "priority": "[/x]"}]\<close>.
\<close>

definition stored_tag :: storage where
  "stored_tag =
     fresh_store \<lparr> content := Parsed (JArr [JObj [(''title'', JStr ''x''),
                                                  (''priority'', JStr ''[/x]'')]]) \<rparr>"

text \<open>
  A \<^verbatim>\<open>repr\<close> that is right on texts holding no quote, backslash or unprintable
  character (the text between single quotes), and a markup check that rejects every text
  holding the closing tag \<^verbatim>\<open>[/x]\<close>.
\<close>

definition plain_repr :: "json \<Rightarrow> string" where
  "plain_repr v = (case v of JStr s \<Rightarrow> quoted s | _ \<Rightarrow> [])"

fun holds :: "string \<Rightarrow> string \<Rightarrow> bool" where
  "holds p [] = (p = [])"
| "holds p (c # cs) = (take (length p) (c # cs) = p \<or> holds p cs)"

definition no_stray_x :: "string \<Rightarrow> bool" where
  "no_stray_x s = (\<not> holds ''[/x]'' s)"


section \<open>Lookup, in-place change and removal of the task found\<close>

lemma get_task_by_id_absent:
  "Some i \<notin> task_id ` set ts \<Longrightarrow> get_task_by_id ts i = None"
  by (induction ts) auto

lemma get_task_by_id_first:
  "Some i \<notin> task_id ` set ts1 \<Longrightarrow> task_id t = Some i \<Longrightarrow>
   get_task_by_id (ts1 @ t # ts2) i = Some t"
  by (induction ts1) auto

lemma modify_found_first:
  "Some i \<notin> task_id ` set ts1 \<Longrightarrow> task_id t = Some i \<Longrightarrow>
   modify_found i f (ts1 @ t # ts2) = ts1 @ f t # ts2"
  by (induction ts1) auto

lemma remove_found_first:
  "Some i \<notin> task_id ` set ts1 \<Longrightarrow> task_id t = Some i \<Longrightarrow>
   remove_found i (ts1 @ t # ts2) = ts1 @ ts2"
  by (induction ts1) auto

text \<open>Every ID that is present has a first task carrying it.\<close>

lemma present_split:
  "Some i \<in> task_id ` set ts \<Longrightarrow>
   \<exists>ts1 t ts2. ts = ts1 @ t # ts2 \<and> task_id t = Some i \<and> Some i \<notin> task_id ` set ts1"
proof (induction ts)
  case Nil
  then show ?case by simp
next
  case (Cons a ts)
  show ?case
  proof (cases "task_id a = Some i")
    case True
    then have "a # ts = [] @ a # ts \<and> task_id a = Some i \<and> Some i \<notin> task_id ` set []"
      by simp
    then show ?thesis by blast
  next
    case False
    with Cons.prems have "Some i \<in> task_id ` set ts" by auto
    from Cons.IH [OF this] obtain ts1 t ts2 where
      h: "ts = ts1 @ t # ts2" "task_id t = Some i" "Some i \<notin> task_id ` set ts1"
      by blast
    with False have
      "a # ts = (a # ts1) @ t # ts2 \<and> task_id t = Some i \<and> Some i \<notin> task_id ` set (a # ts1)"
      by auto
    then show ?thesis by blast
  qed
qed

lemma save_calls_manager_save:
  "save_calls (store (manager_save_tasks m)) = Suc (save_calls (store m))"
  by (simp add: manager_save_tasks_def save_tasks_def)

lemma tasks_manager_save: "tasks (manager_save_tasks m) = tasks m"
  by (simp add: manager_save_tasks_def)

lemma content_manager_save:
  "writable (store m) \<Longrightarrow>
   content (store (manager_save_tasks m)) = Parsed (JArr (map to_dict (tasks m)))"
  by (simp add: manager_save_tasks_def save_tasks_def)


section \<open>Update and delete of an unknown ID\<close>

text \<open>
  C10. When no task of the collection has the ID \<open>i\<close>, \<open>update_task\<close> returns
  \<^verbatim>\<open>False\<close> and the manager it leaves is the one it was given: the same tasks, the
  same file, the same count of \<open>save_tasks\<close> calls, whatever fields were supplied.
\<close>

theorem update_task_not_found:
  "Some i \<notin> task_id ` set (tasks m) \<Longrightarrow> update_task now m i ttl descr prio st = (False, m)"
  by (simp add: update_task_def get_task_by_id_absent)

theorem update_task_not_found_witness:
  "Some 7 \<notin> task_id ` set (tasks three_manager) \<and>
   update_task ''2025-06-03T09:00:00'' three_manager 7
       (Some ''New title'') None (Some HIGH) (Some COMPLETED)
     = (False, three_manager)"
proof -
  have h: "Some 7 \<notin> task_id ` set (tasks three_manager)"
    by (simp add: three_manager_def task_milk_def task_report_def task_call_def)
  show ?thesis
    using h update_task_not_found [OF h] by simp
qed

text \<open>
  C5. When no task has the ID \<open>i\<close>, \<open>delete_task\<close> returns \<^verbatim>\<open>False\<close> and leaves the
  manager as it was, the count of \<open>save_tasks\<close> calls included. When \<open>t\<close> is the first
  task with the ID \<open>i\<close>, \<open>delete_task\<close> returns \<^verbatim>\<open>True\<close>, the collection is the old
  one without \<open>t\<close>, in the same order, and \<open>save_tasks\<close> has been called once with that
  collection; on a writable file the file then holds exactly that collection.
\<close>

theorem delete_task_result:
  "(Some i \<notin> task_id ` set (tasks m) \<longrightarrow> delete_task m i = (False, m)) \<and>
   (tasks m = ts1 @ t # ts2 \<and> task_id t = Some i \<and> Some i \<notin> task_id ` set ts1 \<longrightarrow>
      fst (delete_task m i) = True \<and>
      store (snd (delete_task m i)) = snd (save_tasks (ts1 @ ts2) (store m)) \<and>
      tasks (snd (delete_task m i)) = ts1 @ ts2 \<and>
      save_calls (store (snd (delete_task m i))) = Suc (save_calls (store m)) \<and>
      (writable (store m) \<longrightarrow>
         content (store (snd (delete_task m i))) = Parsed (JArr (map to_dict (ts1 @ ts2)))))"
  by (simp add: delete_task_def get_task_by_id_absent get_task_by_id_first remove_found_first
      save_calls_manager_save tasks_manager_save content_manager_save)
     (simp add: manager_save_tasks_def)

theorem delete_task_result_witness:
  "Some 7 \<notin> task_id ` set (tasks three_manager) \<and>
   delete_task three_manager 7 = (False, three_manager) \<and>
   tasks three_manager = [task_milk] @ task_report # [task_call] \<and>
   task_id task_report = Some 5 \<and>
   Some 5 \<notin> task_id ` set [task_milk] \<and> writable (store three_manager) \<and>
   fst (delete_task three_manager 5) = True \<and>
   tasks (snd (delete_task three_manager 5)) = [task_milk, task_call] \<and>
   save_calls (store (snd (delete_task three_manager 5))) = 1 \<and>
   content (store (snd (delete_task three_manager 5)))
     = Parsed (JArr [to_dict task_milk, to_dict task_call])"
proof -
  have a: "Some 7 \<notin> task_id ` set (tasks three_manager)"
    by (simp add: three_manager_def task_milk_def task_report_def task_call_def)
  have b: "tasks three_manager = [task_milk] @ task_report # [task_call] \<and>
           task_id task_report = Some 5 \<and> Some 5 \<notin> task_id ` set [task_milk]"
    by (simp add: three_manager_def task_milk_def task_report_def)
  have w: "writable (store three_manager)" "save_calls (store three_manager) = 0"
    by (simp_all add: three_manager_def fresh_store_def)
  show ?thesis
    using a b w
      delete_task_result [of 7 three_manager "[]" task_milk "[]"]
      delete_task_result [of 5 three_manager "[task_milk]" task_report "[task_call]"]
    by (simp add: save_tasks_def)
qed


section \<open>Listing\<close>

text \<open>
  C6. With a status filter, \<open>get_tasks\<close> returns the tasks whose status is the filter,
  each as often as it occurs and in the order of the collection (a subsequence of it);
  without a filter it returns the whole collection in order. In both cases the manager
  it leaves is the one it was given, so nothing is saved.
\<close>

theorem get_tasks_filter:
  "get_tasks m (Some s) = (filter (\<lambda>t. status t = s) (tasks m), m) \<and>
   subseq (fst (get_tasks m (Some s))) (tasks m) \<and>
   get_tasks m None = (tasks m, m)"
proof -
  have "with_status s ts = filter (\<lambda>t. status t = s) ts" for ts
    by (induction ts) auto
  then show ?thesis by (simp add: get_tasks_def)
qed


section \<open>Update of a task that is present\<close>

lemma apply_update_frame:
  "task_id (apply_update now ttl descr prio st t) = task_id t"
  "created_at (apply_update now ttl descr prio st t) = created_at t"
  "title (apply_update now ttl descr prio st t) = (case ttl of None \<Rightarrow> title t | Some x \<Rightarrow> x)"
  "description (apply_update now ttl descr prio st t) = (case descr of None \<Rightarrow> description t | Some x \<Rightarrow> x)"
  "priority (apply_update now ttl descr prio st t) = (case prio of None \<Rightarrow> priority t | Some x \<Rightarrow> x)"
  "status (apply_update now ttl descr prio st t) = (case st of None \<Rightarrow> status t | Some x \<Rightarrow> x)"
  by (simp_all add: apply_update_def mark_completed_def mark_in_progress_def Let_def
      split: option.splits)

lemma apply_update_completed_at:
  "completed_at (apply_update now ttl descr prio st t) =
     (case st of None \<Rightarrow> completed_at t
      | Some COMPLETED \<Rightarrow> Some now
      | Some IN_PROGRESS \<Rightarrow> None
      | Some PENDING \<Rightarrow> completed_at t)"
  by (simp add: apply_update_def mark_completed_def mark_in_progress_def Let_def
      split: option.splits Status.splits)

lemma update_task_found:
  assumes "tasks m = ts1 @ t # ts2" "task_id t = Some i" "Some i \<notin> task_id ` set ts1"
  shows "update_task now m i ttl descr prio st =
           (True, manager_save_tasks (m\<lparr>tasks := ts1 @ apply_update now ttl descr prio st t # ts2\<rparr>))"
  using assms by (simp add: update_task_def get_task_by_id_first modify_found_first)

text \<open>
  C2. Let \<open>t\<close> be the first task of the collection with the ID \<open>i\<close>. Then
  \<open>update_task\<close> with status \<^verbatim>\<open>COMPLETED\<close> returns \<^verbatim>\<open>True\<close> and puts in the place of
  \<open>t\<close> a task with status completed and \<^verbatim>\<open>completed_at\<close> set to the clock reading,
  which is not null; with status \<^verbatim>\<open>IN_PROGRESS\<close> the task gets status in progress and
  \<^verbatim>\<open>completed_at\<close> null; with status \<^verbatim>\<open>PENDING\<close> the task gets status pending and
  keeps the \<^verbatim>\<open>completed_at\<close> it had.
\<close>

theorem update_task_status_timestamp:
  assumes "tasks m = ts1 @ t # ts2" and "task_id t = Some i" and "Some i \<notin> task_id ` set ts1"
  shows "(\<exists>t'. update_task now m i ttl descr prio (Some COMPLETED)
                 = (True, manager_save_tasks (m\<lparr>tasks := ts1 @ t' # ts2\<rparr>)) \<and>
               status t' = COMPLETED \<and> completed_at t' = Some now) \<and>
         (\<exists>t'. update_task now m i ttl descr prio (Some IN_PROGRESS)
                 = (True, manager_save_tasks (m\<lparr>tasks := ts1 @ t' # ts2\<rparr>)) \<and>
               status t' = IN_PROGRESS \<and> completed_at t' = None) \<and>
         (\<exists>t'. update_task now m i ttl descr prio (Some PENDING)
                 = (True, manager_save_tasks (m\<lparr>tasks := ts1 @ t' # ts2\<rparr>)) \<and>
               status t' = PENDING \<and> completed_at t' = completed_at t)"
proof (intro conjI)
  show "\<exists>t'. update_task now m i ttl descr prio (Some COMPLETED)
                 = (True, manager_save_tasks (m\<lparr>tasks := ts1 @ t' # ts2\<rparr>)) \<and>
               status t' = COMPLETED \<and> completed_at t' = Some now"
    using update_task_found [OF assms, of now ttl descr prio "Some COMPLETED"]
    by (intro exI [of _ "apply_update now ttl descr prio (Some COMPLETED) t"])
       (simp add: apply_update_frame apply_update_completed_at)
  show "\<exists>t'. update_task now m i ttl descr prio (Some IN_PROGRESS)
                 = (True, manager_save_tasks (m\<lparr>tasks := ts1 @ t' # ts2\<rparr>)) \<and>
               status t' = IN_PROGRESS \<and> completed_at t' = None"
    using update_task_found [OF assms, of now ttl descr prio "Some IN_PROGRESS"]
    by (intro exI [of _ "apply_update now ttl descr prio (Some IN_PROGRESS) t"])
       (simp add: apply_update_frame apply_update_completed_at)
  show "\<exists>t'. update_task now m i ttl descr prio (Some PENDING)
                 = (True, manager_save_tasks (m\<lparr>tasks := ts1 @ t' # ts2\<rparr>)) \<and>
               status t' = PENDING \<and> completed_at t' = completed_at t"
    using update_task_found [OF assms, of now ttl descr prio "Some PENDING"]
    by (intro exI [of _ "apply_update now ttl descr prio (Some PENDING) t"])
       (simp add: apply_update_frame apply_update_completed_at)
qed

theorem update_task_status_timestamp_witness:
  "tasks three_manager = [task_milk] @ task_report # [task_call] \<and>
   task_id task_report = Some 5 \<and> Some 5 \<notin> task_id ` set [task_milk] \<and>
   (\<exists>t'. update_task ''2025-06-03T09:00:00'' three_manager 5 None None None (Some COMPLETED)
           = (True, manager_save_tasks (three_manager\<lparr>tasks := [task_milk] @ t' # [task_call]\<rparr>)) \<and>
         status t' = COMPLETED \<and> completed_at t' = Some ''2025-06-03T09:00:00'') \<and>
   (\<exists>t'. update_task ''2025-06-03T09:00:00'' three_manager 5 None None None (Some IN_PROGRESS)
           = (True, manager_save_tasks (three_manager\<lparr>tasks := [task_milk] @ t' # [task_call]\<rparr>)) \<and>
         status t' = IN_PROGRESS \<and> completed_at t' = None) \<and>
   (\<exists>t'. update_task ''2025-06-03T09:00:00'' three_manager 5 None None None (Some PENDING)
           = (True, manager_save_tasks (three_manager\<lparr>tasks := [task_milk] @ t' # [task_call]\<rparr>)) \<and>
         status t' = PENDING \<and> completed_at t' = Some ''2025-06-02T08:15:00'')"
proof -
  have a: "tasks three_manager = [task_milk] @ task_report # [task_call]"
    by (simp add: three_manager_def)
  have b: "task_id task_report = Some 5"
    by (simp add: task_report_def)
  have c: "Some 5 \<notin> task_id ` set [task_milk]"
    by (simp add: task_milk_def)
  have d: "completed_at task_report = Some ''2025-06-02T08:15:00''"
    by (simp add: task_report_def)
  show ?thesis
    using a b c
      update_task_status_timestamp [OF a b c, of "''2025-06-03T09:00:00''" None None None]
    unfolding d by blast
qed

text \<open>
  C7. Let \<open>t\<close> be the first task of the collection with the ID \<open>i\<close>. Then
  \<open>update_task\<close> returns \<^verbatim>\<open>True\<close>, calls \<open>save_tasks\<close> once with the new collection,
  which on a writable file leaves the file holding exactly the new collection, and the
  new collection differs from the old one only at the place of \<open>t\<close>. The task
  there has the ID and \<^verbatim>\<open>created_at\<close> of \<open>t\<close>; each of title, description, priority
  and status is the supplied value when one is supplied and the value of \<open>t\<close> when it
  is omitted; \<^verbatim>\<open>completed_at\<close> is that of \<open>t\<close> when no status is supplied. With no
  field supplied the task is \<open>t\<close> itself, and the collection is still saved.
\<close>

theorem update_task_partial:
  assumes "tasks m = ts1 @ t # ts2" and "task_id t = Some i" and "Some i \<notin> task_id ` set ts1"
  shows "\<exists>t'. fst (update_task now m i ttl descr prio st) = True \<and>
              tasks (snd (update_task now m i ttl descr prio st)) = ts1 @ t' # ts2 \<and>
              store (snd (update_task now m i ttl descr prio st))
                = snd (save_tasks (ts1 @ t' # ts2) (store m)) \<and>
              save_calls (store (snd (update_task now m i ttl descr prio st)))
                = Suc (save_calls (store m)) \<and>
              (writable (store m) \<longrightarrow>
                 content (store (snd (update_task now m i ttl descr prio st)))
                   = Parsed (JArr (map to_dict (ts1 @ t' # ts2)))) \<and>
              task_id t' = task_id t \<and>
              created_at t' = created_at t \<and>
              title t' = (case ttl of None \<Rightarrow> title t | Some x \<Rightarrow> x) \<and>
              description t' = (case descr of None \<Rightarrow> description t | Some x \<Rightarrow> x) \<and>
              priority t' = (case prio of None \<Rightarrow> priority t | Some x \<Rightarrow> x) \<and>
              status t' = (case st of None \<Rightarrow> status t | Some x \<Rightarrow> x) \<and>
              (st = None \<longrightarrow> completed_at t' = completed_at t) \<and>
              (ttl = None \<and> descr = None \<and> prio = None \<and> st = None \<longrightarrow> t' = t)"
proof -
  have same: "apply_update now None None None None t = t"
    by (simp add: apply_update_def)
  show ?thesis
    using update_task_found [OF assms, of now ttl descr prio st] same
    by (intro exI [of _ "apply_update now ttl descr prio st t"])
       (auto simp add: apply_update_frame apply_update_completed_at tasks_manager_save
          save_calls_manager_save manager_save_tasks_def save_tasks_def)
qed

theorem update_task_partial_witness:
  "tasks three_manager = [task_milk] @ task_report # [task_call] \<and>
   task_id task_report = Some 5 \<and> Some 5 \<notin> task_id ` set [task_milk] \<and>
   writable (store three_manager) \<and>
   (\<exists>t'. fst (update_task ''2025-06-03T09:00:00'' three_manager 5 (Some ''Write the report'') None None None) = True \<and>
         tasks (snd (update_task ''2025-06-03T09:00:00'' three_manager 5 (Some ''Write the report'') None None None))
           = [task_milk, t', task_call] \<and>
         save_calls (store (snd (update_task ''2025-06-03T09:00:00'' three_manager 5
             (Some ''Write the report'') None None None))) = 1 \<and>
         content (store (snd (update_task ''2025-06-03T09:00:00'' three_manager 5
             (Some ''Write the report'') None None None)))
           = Parsed (JArr [to_dict task_milk, to_dict t', to_dict task_call]) \<and>
         task_id t' = Some 5 \<and> title t' = ''Write the report'' \<and>
         description t' = ''Q2 numbers'' \<and> priority t' = HIGH \<and> status t' = COMPLETED \<and>
         created_at t' = ''2025-06-01T11:30:00'' \<and>
         completed_at t' = Some ''2025-06-02T08:15:00'') \<and>
   update_task ''2025-06-03T09:00:00'' three_manager 5 None None None None
     = (True, manager_save_tasks three_manager)"
proof -
  have a: "tasks three_manager = [task_milk] @ task_report # [task_call]"
    by (simp add: three_manager_def)
  have b: "task_id task_report = Some 5"
    by (simp add: task_report_def)
  have c: "Some 5 \<notin> task_id ` set [task_milk]"
    by (simp add: task_milk_def)
  have s: "save_calls (store three_manager) = 0"
    by (simp add: three_manager_def fresh_store_def)
  have w: "writable (store three_manager)"
    by (simp add: three_manager_def fresh_store_def)
  obtain t' where t':
    "fst (update_task ''2025-06-03T09:00:00'' three_manager 5 (Some ''Write the report'') None None None) = True"
    "tasks (snd (update_task ''2025-06-03T09:00:00'' three_manager 5 (Some ''Write the report'') None None None))
       = [task_milk] @ t' # [task_call]"
    "save_calls (store (snd (update_task ''2025-06-03T09:00:00'' three_manager 5
         (Some ''Write the report'') None None None))) = Suc (save_calls (store three_manager))"
    "content (store (snd (update_task ''2025-06-03T09:00:00'' three_manager 5
         (Some ''Write the report'') None None None)))
       = Parsed (JArr (map to_dict ([task_milk] @ t' # [task_call])))"
    "task_id t' = task_id task_report" "created_at t' = created_at task_report"
    "title t' = ''Write the report''" "description t' = description task_report"
    "priority t' = priority task_report" "status t' = status task_report"
    "completed_at t' = completed_at task_report"
    using w update_task_partial [OF a b c, of "''2025-06-03T09:00:00''" "Some ''Write the report''" None None None]
    by auto
  obtain u where u:
    "fst (update_task ''2025-06-03T09:00:00'' three_manager 5 None None None None) = True"
    "tasks (snd (update_task ''2025-06-03T09:00:00'' three_manager 5 None None None None))
       = [task_milk] @ u # [task_call]"
    "store (snd (update_task ''2025-06-03T09:00:00'' three_manager 5 None None None None))
       = snd (save_tasks ([task_milk] @ u # [task_call]) (store three_manager))"
    "u = task_report"
    using update_task_partial [OF a b c, of "''2025-06-03T09:00:00''" None None None None]
    by auto
  have e: "update_task ''2025-06-03T09:00:00'' three_manager 5 None None None None
             = (True, manager_save_tasks three_manager)"
    using u a
    by (cases "update_task ''2025-06-03T09:00:00'' three_manager 5 None None None None")
       (simp add: manager_save_tasks_def TodoManager.equality)
  show ?thesis
    using a b c e t' s w by (auto simp add: task_report_def)
qed


section \<open>Saving and loading\<close>

text \<open>
  The constructor never leaves \<^verbatim>\<open>created_at\<close> empty when the clock reading is not
  empty (\<^verbatim>\<open>isoformat()\<close> never is), and no method assigns to it afterwards.
\<close>

lemma created_at_Task_init:
  "now \<noteq> [] \<Longrightarrow> created_at (Task_init now ttl descr prio st created completed tid) \<noteq> []"
  by (simp add: Task_init_def split: option.splits)

lemma from_dict_to_dict:
  "created_at t \<noteq> [] \<Longrightarrow> from_dict py_repr now (to_dict t) = Inr (Some t)"
  by (cases t; cases "priority t"; cases "status t"; cases "task_id t"; cases "completed_at t")
     (simp_all add: from_dict_def to_dict_def dict_lookup_def dict_get_def Priority_of_def
        Status_of_def json_of_int_option_def json_of_str_option_def as_created_at_def
        Task_init_def)

lemma from_dicts_to_dict:
  "\<forall>t\<in>set ts. created_at t \<noteq> [] \<Longrightarrow>
   from_dicts py_repr now (map to_dict ts) = Inr (Some ts)"
  by (induction ts) (simp_all add: from_dict_to_dict)

lemma load_tasks_of_saved:
  "content st = Parsed (JArr (map to_dict ts)) \<Longrightarrow> \<forall>t\<in>set ts. created_at t \<noteq> [] \<Longrightarrow>
   load_tasks renders py_repr now st = Inr (Some ts, st)"
  by (simp add: load_tasks_def load_body_def from_dicts_to_dict)

text \<open>
  C4. On a writable file, for every collection of tasks with a non-empty
  \<^verbatim>\<open>created_at\<close> (every \<^verbatim>\<open>Task\<close> object has one, by its constructor),
  \<open>save_tasks\<close> returns \<^verbatim>\<open>True\<close> and \<open>load_tasks\<close> on the file it wrote returns the same
  collection: the same tasks with the same seven fields each, in the same order, and with
  no warning printed. The empty collection, a single task and a task whose
  \<^verbatim>\<open>completed_at\<close> is absent are instances.
\<close>

theorem save_load_roundtrip:
  "writable st \<and> (\<forall>t\<in>set ts. created_at t \<noteq> []) \<longrightarrow>
     fst (save_tasks ts st) = True \<and>
     load_tasks renders py_repr now (snd (save_tasks ts st)) = Inr (Some ts, snd (save_tasks ts st))"
proof (intro impI, elim conjE)
  assume w: "writable st" and c: "\<forall>t\<in>set ts. created_at t \<noteq> []"
  have "content (snd (save_tasks ts st)) = Parsed (JArr (map to_dict ts))"
    using w by (simp add: save_tasks_def)
  from load_tasks_of_saved [OF this c] w
  show "fst (save_tasks ts st) = True \<and>
     load_tasks renders py_repr now (snd (save_tasks ts st)) = Inr (Some ts, snd (save_tasks ts st))"
    by (simp add: save_tasks_def)
qed

theorem save_load_roundtrip_witness:
  "writable fresh_store \<and>
   load_tasks (\<lambda>s. True) plain_repr ''2025-06-03T09:00:00'' (snd (save_tasks [] fresh_store))
     = Inr (Some [], snd (save_tasks [] fresh_store)) \<and>
   created_at task_milk \<noteq> [] \<and> completed_at task_milk = None \<and>
   load_tasks (\<lambda>s. True) plain_repr ''2025-06-03T09:00:00'' (snd (save_tasks [task_milk] fresh_store))
     = Inr (Some [task_milk], snd (save_tasks [task_milk] fresh_store)) \<and>
   created_at task_report \<noteq> [] \<and> created_at task_call \<noteq> [] \<and>
   load_tasks (\<lambda>s. True) plain_repr ''2025-06-03T09:00:00'' (snd (save_tasks [task_milk, task_report, task_call] fresh_store))
     = Inr (Some [task_milk, task_report, task_call],
            snd (save_tasks [task_milk, task_report, task_call] fresh_store))"
proof -
  have w: "writable fresh_store" by (simp add: fresh_store_def)
  have c: "created_at task_milk \<noteq> []" "created_at task_report \<noteq> []" "created_at task_call \<noteq> []"
    "completed_at task_milk = None"
    by (simp_all add: task_milk_def task_report_def task_call_def)
  show ?thesis
    using w c
      save_load_roundtrip [of fresh_store "[]" "\<lambda>s. True" plain_repr "''2025-06-03T09:00:00''"]
      save_load_roundtrip [of fresh_store "[task_milk]" "\<lambda>s. True" plain_repr "''2025-06-03T09:00:00''"]
      save_load_roundtrip [of fresh_store "[task_milk, task_report, task_call]" "\<lambda>s. True" plain_repr
        "''2025-06-03T09:00:00''"]
    by simp
qed

section \<open>The next ID and adding a task\<close>

lemma py_max_Max: "xs \<noteq> [] \<Longrightarrow> py_max xs = Inr (Max (set xs))"
proof (cases xs)
  case Nil
  assume "xs \<noteq> []"
  with Nil show ?thesis by simp
next
  case (Cons a as)
  show ?thesis unfolding Cons py_max.simps Max.set_eq_fold ..
qed

lemma set_truthy_ids: "set (truthy_ids ts) = set (all_ids ts) - {0}"
  by (induction ts) (auto split: option.splits)

lemma all_ids_append: "all_ids (ts @ us) = all_ids ts @ all_ids us"
  by (induction ts) (auto split: option.splits)

lemma all_ids_nonempty:
  "ts \<noteq> [] \<Longrightarrow> \<forall>t\<in>set ts. task_id t \<noteq> None \<Longrightarrow> all_ids ts \<noteq> []"
  by (cases ts) auto

lemma get_next_id_empty: "get_next_id [] = Inr 1"
  by (simp add: get_next_id_def)

lemma get_next_id_max:
  assumes ne: "all_ids ts \<noteq> []" and nz: "Max (set (all_ids ts)) \<noteq> 0"
  shows "get_next_id ts = Inr (Max (set (all_ids ts)) + 1)"
proof -
  let ?A = "set (all_ids ts)"
  have neA: "?A \<noteq> {}" using ne by (simp only: set_empty not_False_eq_True)
  have "Max ?A \<in> ?A" by (rule Max_in [OF finite_set neA])
  with nz have mem: "Max ?A \<in> ?A - {0}" by blast
  have eq: "Max (?A - {0}) = Max ?A"
  proof (rule Max_eqI)
    show "finite (?A - {0})" by (rule finite_Diff [OF finite_set])
  next
    fix y assume "y \<in> ?A - {0}"
    then have "y \<in> ?A" by blast
    then show "y \<le> Max ?A" by (rule Max_ge [OF finite_set])
  next
    show "Max ?A \<in> ?A - {0}" by (rule mem)
  qed
  have "set (truthy_ids ts) \<noteq> {}"
    using mem unfolding set_truthy_ids by blast
  then have tne: "truthy_ids ts \<noteq> []" by (simp only: set_empty not_False_eq_True)
  have "py_max (truthy_ids ts) = Inr (Max (set (truthy_ids ts)))"
    by (rule py_max_Max [OF tne])
  then have pm: "py_max (truthy_ids ts) = Inr (Max ?A)"
    unfolding set_truthy_ids eq .
  have tsne: "ts \<noteq> []" using ne by (cases ts) simp_all
  show ?thesis
    unfolding get_next_id_def pm using tsne by simp
qed

lemma add_task_next:
  "get_next_id (tasks m) = Inr n \<Longrightarrow>
   add_task now m ttl descr prio =
     Inr (Task_init now ttl descr prio PENDING None None (Some n),
          manager_save_tasks
            (m\<lparr>tasks := tasks m @ [Task_init now ttl descr prio PENDING None None (Some n)]\<rparr>))"
  by (simp add: add_task_def Let_def)

lemma add_task_raises:
  "get_next_id (tasks m) = Inl x \<Longrightarrow> add_task now m ttl descr prio = Inl x"
  by (simp add: add_task_def)

lemma task_id_Task_init [simp]:
  "task_id (Task_init now ttl descr prio st created completed tid) = tid"
  by (simp add: Task_init_def)

text \<open>The running maximum: 0 stands for the empty collection.\<close>

lemma add_all_ids:
  assumes "(tasks m = [] \<and> k = 0) \<or> (all_ids (tasks m) \<noteq> [] \<and> Max (set (all_ids (tasks m))) = k \<and> 0 < k)"
  shows "\<exists>new m'. add_all m rs = Inr (new, m') \<and>
           map task_id new = map Some [k + 1..k + int (length rs)] \<and>
           tasks m' = tasks m @ new"
  using assms
proof (induction rs arbitrary: m k)
  case Nil
  then show ?case by simp
next
  case (Cons r rs)
  obtain now ttl descr prio where r: "r = (now, ttl, descr, prio)"
    by (cases r) auto
  have nxt: "get_next_id (tasks m) = Inr (k + 1)"
    using Cons.prems get_next_id_max [of "tasks m"] by (auto simp add: get_next_id_empty)
  let ?t = "Task_init now ttl descr prio PENDING None None (Some (k + 1))"
  let ?m1 = "manager_save_tasks (m\<lparr>tasks := tasks m @ [?t]\<rparr>)"
  have step: "add_task now m ttl descr prio = Inr (?t, ?m1)"
    using add_task_next [OF nxt] .
  have tm1: "tasks ?m1 = tasks m @ [?t]"
    by (simp add: tasks_manager_save)
  have ids: "all_ids (tasks ?m1) = all_ids (tasks m) @ [k + 1]"
    by (simp add: tm1 all_ids_append)
  have "Max (set (all_ids (tasks ?m1))) = k + 1"
  proof (cases "tasks m = []")
    case True
    then have "all_ids (tasks ?m1) = [k + 1]" unfolding ids by simp
    then show ?thesis by simp
  next
    case False
    with Cons.prems have h: "all_ids (tasks m) \<noteq> []" "Max (set (all_ids (tasks m))) = k"
      by auto
    have "Max (insert (k + 1) (set (all_ids (tasks m)))) = max (k + 1) (Max (set (all_ids (tasks m))))"
      using h(1) by (intro Max_insert) simp_all
    then show ?thesis using h(2) unfolding ids by simp
  qed
  moreover have "0 \<le> k" using Cons.prems by auto
  moreover have "all_ids (tasks ?m1) \<noteq> []" unfolding ids by simp
  ultimately have inv:
    "(tasks ?m1 = [] \<and> k + 1 = 0) \<or>
     (all_ids (tasks ?m1) \<noteq> [] \<and> Max (set (all_ids (tasks ?m1))) = k + 1 \<and> 0 < k + 1)"
    by linarith
  from Cons.IH [OF inv] obtain new m' where
    rec: "add_all ?m1 rs = Inr (new, m')"
         "map task_id new = map Some [k + 1 + 1..k + 1 + int (length rs)]"
         "tasks m' = tasks ?m1 @ new"
    by blast
  have e: "k + int (length (r # rs)) = k + 1 + int (length rs)" by simp
  have up: "[k + 1..k + int (length (r # rs))] = (k + 1) # [k + 1 + 1..k + 1 + int (length rs)]"
    unfolding e by (rule upto_rec1) simp
  have "add_all m (r # rs) = Inr (?t # new, m')"
    by (simp add: r step rec(1))
  moreover have "map task_id (?t # new) = map Some [k + 1..k + int (length (r # rs))]"
    by (simp only: up list.map rec(2) task_id_Task_init)
  moreover have "tasks m' = tasks m @ ?t # new"
    by (simp add: rec(3) tm1)
  ultimately show ?case by blast
qed

lemma assign_missing_same:
  "\<forall>t\<in>set ts. task_id t \<noteq> None \<Longrightarrow> assign_missing k ts = ts"
  by (induction ts arbitrary: k) auto

lemma TodoManager_init_loaded:
  "load_tasks renders py_repr now st = Inr (Some ts, st') \<Longrightarrow> \<forall>t\<in>set ts. task_id t \<noteq> None \<Longrightarrow>
   TodoManager_init renders py_repr now st = Some (Inr \<lparr>tasks = ts, store = st'\<rparr>)"
  by (simp add: TodoManager_init_def assign_task_ids_def assign_missing_same)

lemma positive_ids_carry:
  "positive_ids ts \<Longrightarrow> (\<forall>t\<in>set ts. task_id t \<noteq> None) \<and> (\<forall>i\<in>set (all_ids ts). 0 < i)"
  by (induction ts) (auto simp add: positive_ids_def split: option.splits)

lemma get_next_id_positive:
  assumes "positive_ids ts"
  shows "get_next_id ts = Inr (next_id ts)"
proof (cases "ts = []")
  case True
  then show ?thesis by (simp add: get_next_id_empty next_id_def)
next
  case False
  from positive_ids_carry [OF assms]
  have c: "\<forall>t\<in>set ts. task_id t \<noteq> None" and p: "\<forall>i\<in>set (all_ids ts). 0 < i"
    by blast+
  have ne: "all_ids ts \<noteq> []" using False c by (rule all_ids_nonempty)
  then have "set (all_ids ts) \<noteq> {}" by (simp only: set_empty not_False_eq_True)
  then have "Max (set (all_ids ts)) \<in> set (all_ids ts)" by (rule Max_in [OF finite_set])
  with p have "Max (set (all_ids ts)) \<noteq> 0" by fastforce
  from get_next_id_max [OF ne this] False show ?thesis by (simp add: next_id_def)
qed

text \<open>
  On the collections of the data model the code assigns the next ID as the data model
  says: the maximum plus one, 1 on the empty collection; so N calls from the empty
  collection assign 1..N, and a manager built from a file whose tasks all carry an ID, the
  maximum being 5, assigns 6.
\<close>

lemma add_task_next_id:
  "positive_ids (tasks m) \<Longrightarrow>
   \<exists>t m'. add_task now m ttl descr prio = Inr (t, m') \<and> task_id t = Some (next_id (tasks m))"
  using add_task_next [OF get_next_id_positive, of m now ttl descr prio] by simp

lemma add_all_from_empty:
  "tasks m = [] \<Longrightarrow>
   \<exists>new m'. add_all m rs = Inr (new, m') \<and> map task_id new = map Some [1..int (length rs)]"
  using add_all_ids [of m 0 rs] by auto

lemma add_task_after_load:
  assumes "load_tasks renders py_repr now0 st = Inr (Some ts, st')" and "ts \<noteq> []"
    and "\<forall>t\<in>set ts. task_id t \<noteq> None" and "Max (set (all_ids ts)) = 5"
  shows "\<exists>m0 t m'. TodoManager_init renders py_repr now0 st = Some (Inr m0) \<and> tasks m0 = ts \<and>
           add_task now m0 ttl descr prio = Inr (t, m') \<and> task_id t = Some 6"
proof -
  let ?m0 = "\<lparr>tasks = ts, store = st'\<rparr>"
  have i: "TodoManager_init renders py_repr now0 st = Some (Inr ?m0)"
    using assms(1,3) by (rule TodoManager_init_loaded)
  have "all_ids (tasks ?m0) \<noteq> []" using assms(2,3) by (simp add: all_ids_nonempty)
  moreover have "Max (set (all_ids (tasks ?m0))) \<noteq> 0" using assms(4) by simp
  ultimately have "get_next_id (tasks ?m0) = Inr (Max (set (all_ids (tasks ?m0))) + 1)"
    by (rule get_next_id_max)
  with assms(4) have "get_next_id (tasks ?m0) = Inr 6" by simp
  from add_task_next [OF this, of now ttl descr prio] i
  show ?thesis by (intro exI [of _ ?m0]) simp
qed

text \<open>
  C1 fails on a collection that holds the ID 0. \<^verbatim>\<open>_get_next_id\<close> keeps an ID by its
  truthiness, so it passes over the ID 0 that \<^verbatim>\<open>_assign_task_ids\<close>, testing
  \<^verbatim>\<open>is not None\<close>, counts as an ID. The file with one record of ID 0 loads into a
  manager holding that task, every task of which carries an ID; the maximum ID present
  is 0, so the next ID would be 1; the code takes the maximum of nothing and
  \<open>add_task\<close> raises \<^verbatim>\<open>ValueError\<close>, for any title, description and priority.
\<close>

theorem add_task_zero_id_raises:
  "load_tasks renders py_repr now0 stored_zero = Inr (Some [task_zero], stored_zero) \<and>
   TodoManager_init renders py_repr now0 stored_zero = Some (Inr zero_manager) \<and>
   task_id task_zero = Some 0 \<and>
   get_next_id (tasks zero_manager) = Inl ValueError \<and>
   add_task now zero_manager ttl descr prio = Inl ValueError"
proof -
  have l: "load_tasks renders py_repr now0 stored_zero = Inr (Some [task_zero], stored_zero)"
    by (simp add: load_tasks_def load_body_def stored_zero_def fresh_store_def from_dict_def
        dict_lookup_def dict_get_def Priority_of_def Status_of_def as_created_at_def
        Task_init_def task_zero_def)
  have i: "TodoManager_init renders py_repr now0 stored_zero = Some (Inr zero_manager)"
    using TodoManager_init_loaded [OF l] by (simp add: zero_manager_def task_zero_def)
  have g: "get_next_id (tasks zero_manager) = Inl ValueError"
    by (simp add: zero_manager_def get_next_id_def task_zero_def)
  show ?thesis
    using l i g add_task_raises [OF g] by (simp add: task_zero_def)
qed

text \<open>
  C3, as the code has it. \<open>add_task\<close> does not reject an empty title: on every
  collection of the data model it returns a new pending task with the empty title, the
  next ID, the description and priority given and the clock reading as
  \<^verbatim>\<open>created_at\<close>; the collection is the old one with that task appended, and
  \<open>save_tasks\<close> has been called once with it, which on a writable file leaves the file
  holding exactly the new collection.
\<close>

theorem add_task_empty_title:
  "positive_ids (tasks m) \<longrightarrow>
     (let t = \<lparr> task_id = Some (next_id (tasks m)), title = [], description = descr,
                priority = prio, status = PENDING, created_at = now, completed_at = None \<rparr>
      in add_task now m [] descr prio
           = Inr (t, \<lparr> tasks = tasks m @ [t],
                       store = snd (save_tasks (tasks m @ [t]) (store m)) \<rparr>) \<and>
         save_calls (snd (save_tasks (tasks m @ [t]) (store m))) = Suc (save_calls (store m)) \<and>
         (writable (store m) \<longrightarrow>
            content (snd (save_tasks (tasks m @ [t]) (store m)))
              = Parsed (JArr (map to_dict (tasks m @ [t])))))"
proof
  assume "positive_ids (tasks m)"
  then have "get_next_id (tasks m) = Inr (next_id (tasks m))" by (rule get_next_id_positive)
  from add_task_next [OF this, of now "[]" descr prio]
  show "let t = \<lparr> task_id = Some (next_id (tasks m)), title = [], description = descr,
                priority = prio, status = PENDING, created_at = now, completed_at = None \<rparr>
      in add_task now m [] descr prio
           = Inr (t, \<lparr> tasks = tasks m @ [t],
                       store = snd (save_tasks (tasks m @ [t]) (store m)) \<rparr>) \<and>
         save_calls (snd (save_tasks (tasks m @ [t]) (store m))) = Suc (save_calls (store m)) \<and>
         (writable (store m) \<longrightarrow>
            content (snd (save_tasks (tasks m @ [t]) (store m)))
              = Parsed (JArr (map to_dict (tasks m @ [t]))))"
    by (simp add: Let_def Task_init_def manager_save_tasks_def save_tasks_def)
qed

text \<open>
  An empty title is accepted: on the empty collection the call returns a new task with
  the empty title, and the collection and the file hold it afterwards.
\<close>

theorem add_task_empty_title_counterexample:
  "tasks empty_manager = [] \<and> title untitled_task = [] \<and>
   add_task ''2025-06-03T09:00:00'' empty_manager [] [] MEDIUM
     = Inr (untitled_task, manager_save_tasks (empty_manager\<lparr>tasks := [untitled_task]\<rparr>)) \<and>
   tasks (manager_save_tasks (empty_manager\<lparr>tasks := [untitled_task]\<rparr>)) = [untitled_task] \<and>
   content (store (manager_save_tasks (empty_manager\<lparr>tasks := [untitled_task]\<rparr>)))
     = Parsed (JArr [to_dict untitled_task])"
  by (simp add: empty_manager_def untitled_task_def add_task_def get_next_id_def Task_init_def
      Let_def tasks_manager_save content_manager_save fresh_store_def)

theorem add_task_empty_title_witness:
  "positive_ids (tasks three_manager) \<and> next_id (tasks three_manager) = 6 \<and>
   writable (store three_manager) \<and>
   add_task ''2025-06-03T09:00:00'' three_manager [] ''No title'' LOW
     = Inr (\<lparr> task_id = Some 6, title = [], description = ''No title'', priority = LOW,
              status = PENDING, created_at = ''2025-06-03T09:00:00'', completed_at = None \<rparr>,
            \<lparr> tasks = [task_milk, task_report, task_call,
                       \<lparr> task_id = Some 6, title = [], description = ''No title'', priority = LOW,
                         status = PENDING, created_at = ''2025-06-03T09:00:00'',
                         completed_at = None \<rparr>],
              store = snd (save_tasks [task_milk, task_report, task_call,
                       \<lparr> task_id = Some 6, title = [], description = ''No title'', priority = LOW,
                         status = PENDING, created_at = ''2025-06-03T09:00:00'',
                         completed_at = None \<rparr>] fresh_store) \<rparr>)"
proof -
  have t: "tasks three_manager = [task_milk, task_report, task_call]"
          "store three_manager = fresh_store"
    by (simp_all add: three_manager_def)
  have p: "positive_ids (tasks three_manager)"
    by (simp add: t positive_ids_def task_milk_def task_report_def task_call_def)
  have a: "all_ids [task_milk, task_report, task_call] = [1, 5, 3]"
    by (simp add: task_milk_def task_report_def task_call_def)
  have n: "next_id (tasks three_manager) = 6"
    unfolding t next_id_def a by simp
  have w: "writable (store three_manager)" by (simp add: t fresh_store_def)
  show ?thesis
    using p n w add_task_empty_title [of three_manager "''No title''" LOW "''2025-06-03T09:00:00''"]
    by (simp add: Let_def t)
qed


section \<open>Loading a file that cannot be decoded\<close>

lemma from_dict_raises:
  "from_dict py_repr now d = Inl (x, msg) \<Longrightarrow> x = KeyError \<or> x = ValueError \<or> x = AttributeError"
  by (auto simp add: from_dict_def split: json.splits option.splits)

lemma from_dicts_raises:
  "from_dicts py_repr now ds = Inl (x, msg) \<Longrightarrow>
   x = KeyError \<or> x = ValueError \<or> x = AttributeError"
proof (induction ds)
  case Nil
  then show ?case by simp
next
  case (Cons d ds)
  then show ?case
    by (auto split: sum.splits dest: from_dict_raises)
qed

lemma iterate_raises: "iterate v = Inl (x, msg) \<Longrightarrow> x = TypeError"
  by (cases v) auto

lemma load_body_raises:
  "load_body py_repr now f = Inl (x, msg) \<Longrightarrow> is_Exception x"
  by (cases f)
     (auto simp add: load_body_def split: sum.splits dest: iterate_raises from_dicts_raises)

text \<open>
  Where \<^verbatim>\<open>console.print\<close> accepts every text, \<open>load_tasks\<close> returns on every file, and
  whenever the body of the \<^verbatim>\<open>try\<close> raises it returns the empty list with a message
  printed.
\<close>

lemma load_tasks_recovers_if_printed:
  assumes r: "\<And>s. renders s" and b: "load_body py_repr now (content st) = Inl (x, msg)"
  shows "\<exists>msgs. msgs \<noteq> [] \<and>
           load_tasks renders py_repr now st = Inr (Some [], st\<lparr>console := console st @ msgs\<rparr>)"
proof (cases "is_decode_error x")
  case True
  with b r have "load_tasks renders py_repr now st = Inr (Some [], st\<lparr>console := console st @
      [''[red]Error loading tasks: '' @ msg @ ''[/red]'',
       ''[yellow]Starting with empty task list.[/yellow]'']\<rparr>)"
    by (simp add: load_tasks_def console_print_def)
  then show ?thesis by blast
next
  case False
  moreover have "is_Exception x" using b by (rule load_body_raises)
  ultimately have "load_tasks renders py_repr now st = Inr (Some [], st\<lparr>console := console st @
      [''[red]Unexpected error loading tasks: '' @ msg @ ''[/red]'']\<rparr>)"
    using b r by (simp add: load_tasks_def console_print_def)
  then show ?thesis by blast
qed

lemma load_tasks_empty_object:
  "content st = Parsed (JObj []) \<Longrightarrow> load_tasks renders py_repr now st = Inr (Some [], st)"
  by (simp add: load_tasks_def load_body_def dict_keys_def)

lemma load_body_stored_tag:
  "load_body py_repr now (content stored_tag)
     = Inl (ValueError, py_repr (JStr ''[/x]'') @ '' is not a valid Priority'')"
  by (simp add: load_body_def stored_tag_def fresh_store_def from_dict_def dict_lookup_def
      dict_get_def Priority_of_def)

text \<open>
  C8 fails on a record whose priority holds a closing markup tag. For the file
  \<^verbatim>\<open>[{"title": "x", "priority": "[/x]"}]\<close> the body of the \<^verbatim>\<open>try\<close> raises
  \<^verbatim>\<open>ValueError\<close> with the text \<^verbatim>\<open>'[/x]' is not a valid Priority\<close>; the first handler
  prints that text inside \<^verbatim>\<open>[red]...[/red]\<close>, and where \<^verbatim>\<open>console.print\<close> rejects
  the markup, as \<^verbatim>\<open>rich\<close> does for a closing tag with no opening one, the
  \<^verbatim>\<open>MarkupError\<close> leaves \<open>load_tasks\<close> and the constructor of the manager: no empty
  list is returned.
\<close>

theorem load_tasks_markup_error:
  "py_repr (JStr ''[/x]'') = quoted ''[/x]'' \<and>
   \<not> renders (''[red]Error loading tasks: '' @ quoted ''[/x]''
                 @ '' is not a valid Priority[/red]'') \<longrightarrow>
     load_body py_repr now (content stored_tag)
       = Inl (ValueError, quoted ''[/x]'' @ '' is not a valid Priority'') \<and>
     load_tasks renders py_repr now stored_tag = Inl MarkupError \<and>
     TodoManager_init renders py_repr now stored_tag = Some (Inl MarkupError)"
proof (intro impI, elim conjE)
  assume p: "py_repr (JStr ''[/x]'') = quoted ''[/x]''"
    and n: "\<not> renders (''[red]Error loading tasks: '' @ quoted ''[/x]''
                 @ '' is not a valid Priority[/red]'')"
  have b: "load_body py_repr now (content stored_tag)
             = Inl (ValueError, quoted ''[/x]'' @ '' is not a valid Priority'')"
    using load_body_stored_tag [of py_repr now] p by simp
  have l: "load_tasks renders py_repr now stored_tag = Inl MarkupError"
    using n by (simp add: load_tasks_def b console_print_def)
  show "load_body py_repr now (content stored_tag)
       = Inl (ValueError, quoted ''[/x]'' @ '' is not a valid Priority'') \<and>
     load_tasks renders py_repr now stored_tag = Inl MarkupError \<and>
     TodoManager_init renders py_repr now stored_tag = Some (Inl MarkupError)"
    using b l by (simp add: TodoManager_init_def)
qed

theorem load_tasks_markup_error_witness:
  "plain_repr (JStr ''[/x]'') = quoted ''[/x]'' \<and>
   \<not> no_stray_x (''[red]Error loading tasks: '' @ quoted ''[/x]''
                    @ '' is not a valid Priority[/red]'') \<and>
   load_tasks no_stray_x plain_repr ''2025-06-03T09:00:00'' stored_tag = Inl MarkupError \<and>
   TodoManager_init no_stray_x plain_repr ''2025-06-03T09:00:00'' stored_tag
     = Some (Inl MarkupError)"
proof -
  have p: "plain_repr (JStr ''[/x]'') = quoted ''[/x]''"
    by (simp add: plain_repr_def)
  have n: "\<not> no_stray_x (''[red]Error loading tasks: '' @ quoted ''[/x]''
                    @ '' is not a valid Priority[/red]'')"
    by (simp add: no_stray_x_def quoted_def)
  show ?thesis
    using p n load_tasks_markup_error [of plain_repr no_stray_x "''2025-06-03T09:00:00''"]
    by simp
qed


section \<open>The persisted layout\<close>






text \<open>
  The tasks the program makes stay within the data model when the clock gives ISO-8601
  texts: a new task and an updated task carry an ID and such timestamps.
\<close>

lemma stamped_Task_init:
  "iso8601 now \<Longrightarrow> stamped (Task_init now ttl descr prio st None None (Some n))"
  by (simp add: stamped_def Task_init_def)

lemma stamped_apply_update:
  "iso8601 now \<Longrightarrow> stamped t \<Longrightarrow> stamped (apply_update now ttl descr prio st t)"
  by (auto simp add: stamped_def apply_update_def mark_completed_def mark_in_progress_def
      Let_def split: option.splits)




end
